theory Spec2Isabelle
  imports Complex_Main
begin

section \<open>The runner: \<open>tensorflow_gnn/runner/orchestration.py\<close>\<close>

subsection \<open>Python values\<close>

text \<open>
  The objects a preprocessor can hand back. \<open>'g\<close> stands for graph tensors,
  \<open>'t\<close> for every other object that is neither a tuple nor \<open>None\<close> (a tensor,
  say). \<open>tfgnn.is_graph_tensor\<close> is true of the first constructor only, and
  \<open>isinstance(_, tuple)\<close> of the last only.
\<close>

datatype ('g, 't) pyobj =
    GraphTensor 'g
  | Tensor 't
  | NoneObj
  | Tuple "('g, 't) pyobj list"

fun is_graph_tensor :: "('g, 't) pyobj \<Rightarrow> bool" where
  "is_graph_tensor (GraphTensor g) = True"
| "is_graph_tensor (Tensor t) = False"
| "is_graph_tensor NoneObj = False"
| "is_graph_tensor (Tuple elems) = False"

text \<open>
  The three \<open>ValueError\<close>s of \<open>make_preprocess_model\<close>, told apart by their message;
  the objects formatted into the message are kept as arguments. \<open>IndexError\<close> is what
  \<open>outputs[0]\<close> raises on an empty tuple.
\<close>

datatype ('g, 't) message =
    Received_more_than_one_label "('g, 't) pyobj" "('g, 't) pyobj"
  | Expected_GraphTensor_and_Tensor "('g, 't) pyobj"
  | Expected_GraphTensor "('g, 't) pyobj"

datatype ('g, 't) exn =
    ValueError "('g, 't) message"
  | IndexError

text \<open>\<open>tf.keras.Model(inputs, outputs)\<close>: a functional model is its two arguments.\<close>

datatype ('g, 't) keras_model =
  Model (inputs: "('g, 't) pyobj") (outputs: "('g, 't) pyobj")

subsection \<open>The framework the runner calls into\<close>

text \<open>
  Everything \<open>orchestration.py\<close> imports and calls but does not define is a field of
  this record: the Keras input of \<open>make_preprocess_model\<close>, the parsing layer,
  \<open>merge_batch_to_components\<close>, the dataset operations, compiling and calling a
  trained model, and \<open>os.path.join\<close>. The parsing layer and
  \<open>merge_batch_to_components\<close> return graph tensors. \<open>'s\<close> are graph tensor specs, \<open>'m\<close> trainable
  models, \<open>'ds\<close> datasets, \<open>'ctx\<close> input contexts, \<open>'opt\<close> optimizers and \<open>'lm\<close> the
  losses and metrics of a task.
\<close>

record ('s, 'g, 't, 'm, 'ds, 'ctx, 'opt, 'lm) framework =
  Input_examples :: "('g, 't) pyobj"
  ParseExample :: "'s \<Rightarrow> ('g, 't) pyobj \<Rightarrow> 'g"
  merge_batch_to_components :: "'g \<Rightarrow> 'g"
  spec_of :: "('g, 't) pyobj \<Rightarrow> 's"
  ds_batch :: "'ds \<Rightarrow> int \<Rightarrow> bool \<Rightarrow> 'ds"
  ds_map :: "'ds \<Rightarrow> ('g, 't) keras_model \<Rightarrow> 'ds"
  get_per_replica_batch_size :: "'ctx \<Rightarrow> int \<Rightarrow> int"
  compile :: "'m \<Rightarrow> 'opt \<Rightarrow> 'lm \<Rightarrow> 'lm \<Rightarrow> 'm"
  call_model :: "'m \<Rightarrow> ('g, 't) pyobj \<Rightarrow> ('g, 't) pyobj"
  os_path_join :: "string \<Rightarrow> string \<Rightarrow> string"

subsection \<open>\<open>make_preprocess_model\<close>\<close>

text \<open>
  One turn of the loop \<open>for fn in preprocessors\<close>, on the loop variables \<open>(x, y)\<close>:
  the branches are those of the source, in its order. \<open>y = NoneObj\<close> is
  \<open>y is None\<close>.
\<close>

definition preprocess_step ::
  "(('g, 't) pyobj \<Rightarrow> ('g, 't) pyobj) \<Rightarrow> ('g, 't) pyobj \<times> ('g, 't) pyobj
    \<Rightarrow> ('g, 't) exn + ('g, 't) pyobj \<times> ('g, 't) pyobj" where
  "preprocess_step fn s =
     (case s of (x, y) \<Rightarrow>
        let output = fn x in
        (case output of
           Tuple elems \<Rightarrow>
             if length elems = 2 \<and> is_graph_tensor (elems ! 0) \<and> y = NoneObj
               then Inr (elems ! 0, elems ! 1)
             else if length elems = 2 \<and> y \<noteq> NoneObj
               then Inl (ValueError (Received_more_than_one_label y (elems ! 1)))
             else Inl (ValueError (Expected_GraphTensor_and_Tensor output))
         | _ \<Rightarrow>
             if is_graph_tensor output then Inr (output, y)
             else Inl (ValueError (Expected_GraphTensor output))))"

fun preprocess_loop ::
  "(('g, 't) pyobj \<Rightarrow> ('g, 't) pyobj) list \<Rightarrow> ('g, 't) pyobj \<times> ('g, 't) pyobj
    \<Rightarrow> ('g, 't) exn + ('g, 't) pyobj \<times> ('g, 't) pyobj" where
  "preprocess_loop [] s = Inr s"
| "preprocess_loop (fn # fns) s =
     (case preprocess_step fn s of
        Inl e \<Rightarrow> Inl e
      | Inr s' \<Rightarrow> preprocess_loop fns s')"

text \<open>The graph tensor the loop starts from: the parsed examples, merged.\<close>

definition parsed_input ::
  "('s, 'g, 't, 'm, 'ds, 'ctx, 'opt, 'lm) framework \<Rightarrow> 's \<Rightarrow> ('g, 't) pyobj" where
  "parsed_input fw gtspec =
     GraphTensor (merge_batch_to_components fw (ParseExample fw gtspec (Input_examples fw)))"

definition make_preprocess_model ::
  "('s, 'g, 't, 'm, 'ds, 'ctx, 'opt, 'lm) framework \<Rightarrow> 's
    \<Rightarrow> (('g, 't) pyobj \<Rightarrow> ('g, 't) pyobj) list
    \<Rightarrow> ('g, 't) exn + ('g, 't) keras_model" where
  "make_preprocess_model fw gtspec preprocessors =
     (let examples = Input_examples fw;
          x = GraphTensor (merge_batch_to_components fw (ParseExample fw gtspec examples));
          y = NoneObj
      in case preprocess_loop preprocessors (x, y) of
           Inl e \<Rightarrow> Inl e
         | Inr (x, y) \<Rightarrow>
             Inr (Model examples (if y = NoneObj then x else Tuple [x, y])))"

text \<open>
  The words of the claim about \<open>make_preprocess_model\<close>. A 2-tuple is a tuple of
  length two; a label has been produced when the loop variable \<open>y\<close> is not
  \<open>None\<close>; an output is acceptable when it is a graph tensor or a 2-tuple whose first
  element is one.
\<close>

definition is_pair :: "('g, 't) pyobj \<Rightarrow> bool" where
  "is_pair out = (case out of Tuple [a, b] \<Rightarrow> True | _ \<Rightarrow> False)"

definition is_graph_pair :: "('g, 't) pyobj \<Rightarrow> bool" where
  "is_graph_pair out = (case out of Tuple [a, b] \<Rightarrow> is_graph_tensor a | _ \<Rightarrow> False)"

definition label_produced :: "('g, 't) pyobj \<Rightarrow> bool" where
  "label_produced y = (y \<noteq> NoneObj)"

definition rejected :: "('g, 't) pyobj \<Rightarrow> ('g, 't) pyobj \<Rightarrow> bool" where
  "rejected y out =
     ((is_pair out \<and> label_produced y) \<or> \<not> (is_graph_tensor out \<or> is_graph_pair out))"

text \<open>
  The graph and the label as the preprocessors hand them on, read off their outputs
  alone: a returned pair gives the graph and the label, any other output is the
  graph and leaves the label as it was. \<open>state_after\<close> is the graph and label after
  a sequence of preprocessors, each applied to the graph returned before it, and
  \<open>rejected_at\<close> says that the output of preprocessor \<open>i\<close>, applied to the graph
  of the preprocessors before it, is rejected.
\<close>

definition accepted_state ::
  "('g, 't) pyobj \<times> ('g, 't) pyobj \<Rightarrow> ('g, 't) pyobj \<Rightarrow> ('g, 't) pyobj \<times> ('g, 't) pyobj" where
  "accepted_state s out = (case out of Tuple [g, l] \<Rightarrow> (g, l) | _ \<Rightarrow> (out, snd s))"

definition state_after ::
  "(('g, 't) pyobj \<Rightarrow> ('g, 't) pyobj) list \<Rightarrow> ('g, 't) pyobj \<times> ('g, 't) pyobj
    \<Rightarrow> ('g, 't) pyobj \<times> ('g, 't) pyobj" where
  "state_after fns s = foldl (\<lambda>s fn. accepted_state s (fn (fst s))) s fns"

definition rejected_at ::
  "(('g, 't) pyobj \<Rightarrow> ('g, 't) pyobj) list \<Rightarrow> ('g, 't) pyobj \<times> ('g, 't) pyobj \<Rightarrow> nat
    \<Rightarrow> bool" where
  "rejected_at fns s0 i =
     (let s = state_after (take i fns) s0 in rejected (snd s) ((fns ! i) (fst s)))"

subsection \<open>\<open>_WrappedDatasetProvider\<close>, \<open>Task\<close>, \<open>Trainer\<close>\<close>

text \<open>
  A \<open>DatasetProvider\<close> is its method \<open>get_dataset\<close>, a function from input contexts
  to datasets. The wrapped provider keeps the four attributes its constructor
  stores.
\<close>

record ('ds, 'ctx) wrapped_dataset_provider =
  self_apply_fn :: "'ds \<Rightarrow> 'ds"
  self_delegate :: "'ctx \<Rightarrow> 'ds"
  self_drop_remainder :: bool
  self_global_batch_size :: int

definition get_dataset ::
  "('s, 'g, 't, 'm, 'ds, 'ctx, 'opt, 'lm) framework \<Rightarrow> ('ds, 'ctx) wrapped_dataset_provider
    \<Rightarrow> 'ctx \<Rightarrow> 'ds" where
  "get_dataset fw self ctx =
     (let ds = self_delegate self ctx;
          ds = ds_batch fw ds
                 (get_per_replica_batch_size fw ctx (self_global_batch_size self))
                 (self_drop_remainder self)
      in self_apply_fn self ds)"

record ('m, 'ds, 'lm) task =
  adapt :: "'m \<Rightarrow> 'm"
  preprocessors :: "('ds \<Rightarrow> 'ds) list"
  losses :: 'lm
  metrics :: 'lm

text \<open>
  \<open>Trainer.train\<close> receives the model factory (a closure that can raise), the training
  provider, the epochs and the optional validation provider, and returns the trained
  model.
\<close>

record ('g, 't, 'm, 'ds, 'ctx) trainer =
  model_dir :: string
  train :: "(unit \<Rightarrow> ('g, 't) exn + 'm) \<Rightarrow> ('ctx \<Rightarrow> 'ds) \<Rightarrow> int
             \<Rightarrow> ('ctx \<Rightarrow> 'ds) option \<Rightarrow> 'm"

subsection \<open>\<open>run\<close>\<close>

text \<open>The keyword arguments of \<open>run\<close>; an \<open>Optional\<close> argument is an option.\<close>

record ('s, 'g, 't, 'm, 'ds, 'ctx, 'opt, 'lm) run_args =
  train_ds_provider :: "'ctx \<Rightarrow> 'ds"
  model_fn :: "'s \<Rightarrow> 'm"
  optimizer_fn :: "unit \<Rightarrow> 'opt"
  trainer :: "('g, 't, 'm, 'ds, 'ctx) trainer"
  task :: "('m, 'ds, 'lm) task"
  gtspec :: 's
  global_batch_size :: int
  epochs :: int
  drop_remainder :: bool
  export_dirs :: "string list option"
  feature_processors :: "(('g, 't) pyobj \<Rightarrow> ('g, 't) pyobj) list option"
  valid_ds_provider :: "('ctx \<Rightarrow> 'ds) option"

text \<open>
  \<open>outputs[0] if isinstance(outputs, (list, tuple)) else outputs\<close>, and the same for
  the attribute \<open>preprocess_model.outputs\<close>, which Keras keeps as a list.
\<close>

definition first_output :: "('g, 't) pyobj \<Rightarrow> ('g, 't) exn + ('g, 't) pyobj" where
  "first_output out =
     (case out of
        Tuple elems \<Rightarrow> (case elems of [] \<Rightarrow> Inl IndexError | a # rest \<Rightarrow> Inr a)
      | _ \<Rightarrow> Inr out)"

text \<open>
  \<open>preprocess_model(inputs)\<close> with \<open>inputs = preprocess_model.inputs\<close>: a functional
  Keras model called on its own inputs gives back the structure of its outputs.
\<close>

definition call_on_own_inputs :: "('g, 't) keras_model \<Rightarrow> ('g, 't) pyobj" where
  "call_on_own_inputs m = outputs m"

text \<open>The closures \<open>feature_preprocess_fn\<close>, \<open>apply_fn\<close> and \<open>adapted_model_fn\<close>.\<close>

definition feature_preprocess_fn ::
  "('s, 'g, 't, 'm, 'ds, 'ctx, 'opt, 'lm) framework \<Rightarrow> ('g, 't) keras_model \<Rightarrow> 'ds \<Rightarrow> 'ds" where
  "feature_preprocess_fn fw preprocess_model ds = ds_map fw ds preprocess_model"

definition apply_fn ::
  "('s, 'g, 't, 'm, 'ds, 'ctx, 'opt, 'lm) framework \<Rightarrow> ('m, 'ds, 'lm) task
    \<Rightarrow> ('g, 't) keras_model \<Rightarrow> 'ds \<Rightarrow> 'ds" where
  "apply_fn fw tsk preprocess_model ds =
     (let fns = feature_preprocess_fn fw preprocess_model # preprocessors tsk
      in foldl (\<lambda>acc fn. fn acc) ds fns)"

definition adapted_model_fn ::
  "('s, 'g, 't, 'm, 'ds, 'ctx, 'opt, 'lm) framework
    \<Rightarrow> ('s, 'g, 't, 'm, 'ds, 'ctx, 'opt, 'lm) run_args
    \<Rightarrow> ('g, 't) keras_model \<Rightarrow> unit \<Rightarrow> ('g, 't) exn + 'm" where
  "adapted_model_fn fw a preprocess_model u =
     (case first_output (outputs preprocess_model) of
        Inl e \<Rightarrow> Inl e
      | Inr x \<Rightarrow>
          let m = adapt (task a) (model_fn a (spec_of fw x))
          in Inr (compile fw m (optimizer_fn a ()) (losses (task a)) (metrics (task a))))"

text \<open>
  The export loop. The effect of \<open>model_for_export.save(export_dir)\<close> is recorded in
  the list of saves made so far, oldest first: which model went to which path.
\<close>

fun export_loop ::
  "('g, 't) keras_model \<Rightarrow> string list \<Rightarrow> (('g, 't) keras_model \<times> string) list
    \<Rightarrow> (('g, 't) keras_model \<times> string) list" where
  "export_loop model_for_export [] saved = saved"
| "export_loop model_for_export (export_dir # rest) saved =
     export_loop model_for_export rest (saved @ [(model_for_export, export_dir)])"

text \<open>
  \<open>export_dirs or [os.path.join(trainer.model_dir, "export")]\<close>: Python's \<open>or\<close> takes
  its right operand when the left one is \<open>None\<close> or an empty sequence.
\<close>

definition export_targets ::
  "('s, 'g, 't, 'm, 'ds, 'ctx, 'opt, 'lm) framework \<Rightarrow> string list option \<Rightarrow> string
    \<Rightarrow> string list" where
  "export_targets fw dirs mdir =
     (case dirs of
        None \<Rightarrow> [os_path_join fw mdir ''export'']
      | Some ds \<Rightarrow> if ds = [] then [os_path_join fw mdir ''export''] else ds)"

text \<open>
  The training stage of \<open>run\<close>: both providers are wrapped and handed to
  \<open>trainer.train\<close> with the model factory; the result is the trained model.
\<close>

definition trained_model ::
  "('s, 'g, 't, 'm, 'ds, 'ctx, 'opt, 'lm) framework
    \<Rightarrow> ('s, 'g, 't, 'm, 'ds, 'ctx, 'opt, 'lm) run_args
    \<Rightarrow> ('g, 't) keras_model \<Rightarrow> 'm" where
  "trained_model fw a preprocess_model =
     (let train_provider =
            \<lparr>self_apply_fn = apply_fn fw (task a) preprocess_model,
             self_delegate = train_ds_provider a,
             self_drop_remainder = drop_remainder a,
             self_global_batch_size = global_batch_size a\<rparr>;
          valid_provider =
            (case valid_ds_provider a of
               None \<Rightarrow> None
             | Some v \<Rightarrow>
                 Some \<lparr>self_apply_fn = apply_fn fw (task a) preprocess_model,
                       self_delegate = v,
                       self_drop_remainder = drop_remainder a,
                       self_global_batch_size = global_batch_size a\<rparr>)
      in train (trainer a) (adapted_model_fn fw a preprocess_model)
           (get_dataset fw train_provider) (epochs a)
           (map_option (get_dataset fw) valid_provider))"

text \<open>
  \<open>run\<close> returns nothing; what it leaves behind is the list of saves, so that is the
  result here, or the exception that ended the call.
\<close>

definition run ::
  "('s, 'g, 't, 'm, 'ds, 'ctx, 'opt, 'lm) framework
    \<Rightarrow> ('s, 'g, 't, 'm, 'ds, 'ctx, 'opt, 'lm) run_args
    \<Rightarrow> ('g, 't) exn + (('g, 't) keras_model \<times> string) list" where
  "run fw a =
     (case make_preprocess_model fw (gtspec a)
             (case feature_processors a of None \<Rightarrow> [] | Some fps \<Rightarrow> fps) of
        Inl e \<Rightarrow> Inl e
      | Inr preprocess_model \<Rightarrow>
          let model = trained_model fw a preprocess_model;
              ins = inputs preprocess_model;
              outs = call_on_own_inputs preprocess_model
          in (case first_output outs of
                Inl e \<Rightarrow> Inl e
              | Inr x \<Rightarrow>
                  let model_for_export = Model ins (call_model fw model x)
                  in Inr (export_loop model_for_export
                            (export_targets fw (export_dirs a) (model_dir (trainer a))) [])))"

subsection \<open>A concrete framework and concrete calls\<close>

text \<open>
  Small stand-ins for the collaborators, used to run the definitions: graph tensors,
  other tensors and trained models are numbers, datasets are lists of numbers, and
  paths are joined with a slash.
\<close>

definition fw0 :: "(unit, nat, nat, nat, nat list, unit, unit, unit) framework" where
  "fw0 =
     \<lparr>Input_examples = Tensor 0,
      ParseExample = (\<lambda>s e. 0),
      merge_batch_to_components = (\<lambda>x. x),
      spec_of = (\<lambda>x. ()),
      ds_batch = (\<lambda>ds n b. ds),
      ds_map = (\<lambda>ds m. ds),
      get_per_replica_batch_size = (\<lambda>c n. n),
      compile = (\<lambda>m opt l1 l2. m),
      call_model = (\<lambda>m x. Tensor m),
      os_path_join = (\<lambda>a b. a @ ''/'' @ b)\<rparr>"

definition with_label :: "nat \<Rightarrow> (nat, nat) pyobj \<Rightarrow> (nat, nat) pyobj" where
  "with_label l x = Tuple [x, Tensor l]"

definition next_graph :: "(nat, nat) pyobj \<Rightarrow> (nat, nat) pyobj" where
  "next_graph x = (case x of GraphTensor n \<Rightarrow> GraphTensor (Suc n) | _ \<Rightarrow> x)"

definition relabelled :: "nat \<Rightarrow> (nat, nat) pyobj \<Rightarrow> (nat, nat) pyobj" where
  "relabelled l x = Tuple [next_graph x, Tensor l]"

definition not_a_graph :: "(nat, nat) pyobj \<Rightarrow> (nat, nat) pyobj" where
  "not_a_graph x = Tensor 5"

definition args0 ::
  "string list option \<Rightarrow> ((nat, nat) pyobj \<Rightarrow> (nat, nat) pyobj) list option
    \<Rightarrow> (unit, nat, nat, nat, nat list, unit, unit, unit) run_args" where
  "args0 dirs fps =
     \<lparr>train_ds_provider = (\<lambda>c. [1, 2, 3]),
      model_fn = (\<lambda>s. 7),
      optimizer_fn = (\<lambda>u. ()),
      trainer = \<lparr>model_dir = ''/tmp/m'',
                 train = (\<lambda>f p e v. case f () of Inl ex \<Rightarrow> 0 | Inr m \<Rightarrow> Suc m)\<rparr>,
      task = \<lparr>adapt = (\<lambda>m. m), preprocessors = [], losses = (), metrics = ()\<rparr>,
      gtspec = (),
      global_batch_size = 2,
      epochs = 1,
      drop_remainder = True,
      export_dirs = dirs,
      feature_processors = fps,
      valid_ds_provider = None\<rparr>"

section \<open>The padder exercised by \<open>padding_ops_test.py\<close>\<close>

subsection \<open>Graph batches and size ceilings\<close>

text \<open>
  Modelled from the spec: the graph batch and the size ceilings that the layer
  \<open>padding_ops.PadToTotalSizes\<close> works on (the modules \<open>padding_ops\<close>, \<open>graph_tensor\<close>,
  \<open>adjacency\<close> and \<open>preprocessing_common\<close> are imported by the test and are not among
  the sources). A feature has an element type, the shape of one row and its rows; a
  node set has a sizes array and features; an edge set has an adjacency besides; a
  batch has context features indexed by component, a component count and named node
  and edge sets. Named collections keep the order in which they were given. Float
  values are only ever copied or created as zero, so they are held as real numbers.
\<close>

type_synonym 'v dict = "(string \<times> 'v) list"

datatype dtype = DT_INT | DT_FLOAT

datatype scalar = IntVal int | FloatVal real

datatype tensor = Scalar scalar | Nested "tensor list"

record feature =
  dtype :: dtype
  row_shape :: "nat list"
  rows :: "tensor list"

record node_set =
  sizes :: "nat list"
  features :: "feature dict"

record adjacency =
  source_name :: string
  source :: "nat list"
  target_name :: string
  target :: "nat list"

record edge_set = node_set +
  adjacency :: adjacency

record graph_tensor =
  context_features :: "feature dict"
  num_components :: nat
  node_sets :: "node_set dict"
  edge_sets :: "edge_set dict"

text \<open>
  Modelled from the spec: a ceiling value as it arrives (section 3 of the spec): a
  bare integer, a numeric container given by its elements (a rank-0 or size-1
  container has one), or anything else.
\<close>

datatype ceiling_value = PlainInt int | NumericContainer "int list" | NotNumeric

record size_constraints =
  total_num_components :: ceiling_value
  total_num_nodes :: "ceiling_value dict"
  total_num_edges :: "ceiling_value dict"

datatype pad_error = SchemaMismatch | CapacityExceeded | MalformedCeiling

subsection \<open>The padding transformation\<close>

text \<open>
  Modelled from the spec: the conversion \<open>toInt\<close> of section 9, used for every
  ceiling value (step 1 of the algorithm of section 4.1); a value of neither form is
  a \<open>MalformedCeiling\<close> (section 7).
\<close>

fun toInt :: "ceiling_value \<Rightarrow> pad_error + int" where
  "toInt (PlainInt n) = Inr n"
| "toInt (NumericContainer [n]) = Inr n"
| "toInt (NumericContainer ns) = Inl MalformedCeiling"
| "toInt NotNumeric = Inl MalformedCeiling"

fun normalize_all :: "ceiling_value dict \<Rightarrow> pad_error + int dict" where
  "normalize_all [] = Inr []"
| "normalize_all ((name, v) # rest) =
     (case toInt v of
        Inl e \<Rightarrow> Inl e
      | Inr n \<Rightarrow>
          (case normalize_all rest of
             Inl e \<Rightarrow> Inl e
           | Inr rest' \<Rightarrow> Inr ((name, n) # rest')))"

text \<open>
  Modelled from the spec: zero fill (step 3 and property 4). A padding row has the
  shape of the feature's rows and the zero of its element type everywhere.
\<close>

fun zero_of :: "dtype \<Rightarrow> scalar" where
  "zero_of DT_INT = IntVal 0"
| "zero_of DT_FLOAT = FloatVal 0"

fun zero_row :: "dtype \<Rightarrow> nat list \<Rightarrow> tensor" where
  "zero_row dt [] = Scalar (zero_of dt)"
| "zero_row dt (d # ds) = Nested (replicate d (zero_row dt ds))"

definition pad_feature :: "nat \<Rightarrow> feature \<Rightarrow> feature" where
  "pad_feature n f = f\<lparr>rows := rows f @ replicate n (zero_row (dtype f) (row_shape f))\<rparr>"

definition pad_features :: "nat \<Rightarrow> feature dict \<Rightarrow> feature dict" where
  "pad_features n fs = map (\<lambda>(name, f). (name, pad_feature n f)) fs"

text \<open>
  Modelled from the spec: the sizes of the synthetic components (step 3). The newly
  appended component or components record the deficit; with several, the first
  records all of it. With no component to append there is nothing to record a
  deficit in, and \<open>pad\<close> below accepts such ceilings only when every deficit is zero.
\<close>

fun padding_sizes :: "nat \<Rightarrow> nat \<Rightarrow> nat list" where
  "padding_sizes 0 deficit = []"
| "padding_sizes (Suc k) deficit = deficit # replicate k 0"

text \<open>
  Modelled from the spec: the padding amount of a named set (step 2), ceiling minus
  actual total.
\<close>

definition deficit :: "int dict \<Rightarrow> string \<Rightarrow> nat \<Rightarrow> nat" where
  "deficit ceilings name actual =
     (case map_of ceilings name of
        None \<Rightarrow> 0
      | Some c \<Rightarrow> nat (c - int actual))"

definition pad_node_set :: "nat \<Rightarrow> nat \<Rightarrow> node_set \<Rightarrow> node_set" where
  "pad_node_set k d ns =
     ns\<lparr>sizes := sizes ns @ padding_sizes k d,
        features := pad_features d (features ns)\<rparr>"

text \<open>
  Modelled from the spec: synthetic adjacency entries (step 3), which point at
  padding node rows and never out of range. Every synthetic edge points at the first
  padding node of the node set it refers to, whose index is that set's actual node
  total; \<open>pad\<close> below accepts an edge deficit only when both node sets the edge set
  refers to get a padding node, so that this index is within the padded node array.
\<close>

definition first_padding_node :: "graph_tensor \<Rightarrow> string \<Rightarrow> nat" where
  "first_padding_node b name =
     (case map_of (node_sets b) name of
        None \<Rightarrow> 0
      | Some ns \<Rightarrow> sum_list (sizes ns))"

definition pad_adjacency :: "graph_tensor \<Rightarrow> nat \<Rightarrow> adjacency \<Rightarrow> adjacency" where
  "pad_adjacency b d adj =
     adj\<lparr>source := source adj @ replicate d (first_padding_node b (source_name adj)),
         target := target adj @ replicate d (first_padding_node b (target_name adj))\<rparr>"

definition pad_edge_set :: "graph_tensor \<Rightarrow> nat \<Rightarrow> nat \<Rightarrow> edge_set \<Rightarrow> edge_set" where
  "pad_edge_set b k d es =
     es\<lparr>sizes := sizes es @ padding_sizes k d,
        features := pad_features d (features es),
        adjacency := pad_adjacency b d (adjacency es)\<rparr>"

text \<open>
  Modelled from the spec: the preconditions of section 4.1. The names of the ceilings
  and of the batch have to be the same (the spec names only the ceilings' names
  missing from the batch as a \<open>SchemaMismatch\<close>; a set of the batch with no ceiling
  is treated alike here), and no ceiling may be below the actual total.
\<close>

definition schema_matches :: "graph_tensor \<Rightarrow> int dict \<Rightarrow> int dict \<Rightarrow> bool" where
  "schema_matches b tn te =
     (set (map fst tn) = set (map fst (node_sets b))
      \<and> set (map fst te) = set (map fst (edge_sets b)))"

definition fits :: "graph_tensor \<Rightarrow> int \<Rightarrow> int dict \<Rightarrow> int dict \<Rightarrow> bool" where
  "fits b tc tn te =
     (int (num_components b) \<le> tc
      \<and> list_all (\<lambda>(name, ns).
                    case map_of tn name of
                      None \<Rightarrow> True
                    | Some c \<Rightarrow> int (sum_list (sizes ns)) \<le> c)
          (node_sets b)
      \<and> list_all (\<lambda>(name, es).
                    case map_of te name of
                      None \<Rightarrow> True
                    | Some c \<Rightarrow> int (sum_list (sizes es)) \<le> c)
          (edge_sets b))"

text \<open>
  Modelled from the spec: room for the padding. The sizes of a set have to sum to its
  ceiling (property 1) while the component count is the component ceiling (step 4),
  so a positive deficit needs a synthetic component to record it; and the synthetic
  edges have to point at padding node rows (step 3, property 5), so an edge deficit
  needs a padding node in the source and in the target node set. Ceilings that leave
  no room for these do not hold the content together with its padding, and are
  refused like ceilings below the actual totals.
\<close>

definition has_padding_node :: "graph_tensor \<Rightarrow> int dict \<Rightarrow> string \<Rightarrow> bool" where
  "has_padding_node b tn name =
     (case map_of (node_sets b) name of
        None \<Rightarrow> False
      | Some ns \<Rightarrow> 0 < deficit tn name (sum_list (sizes ns)))"

definition absorbs :: "graph_tensor \<Rightarrow> nat \<Rightarrow> int dict \<Rightarrow> int dict \<Rightarrow> bool" where
  "absorbs b k tn te =
     (list_all (\<lambda>(name, ns). deficit tn name (sum_list (sizes ns)) = 0 \<or> 0 < k)
        (node_sets b)
      \<and> list_all (\<lambda>(name, es).
                    deficit te name (sum_list (sizes es)) = 0
                    \<or> (0 < k
                        \<and> has_padding_node b tn (source_name (adjacency es))
                        \<and> has_padding_node b tn (target_name (adjacency es))))
          (edge_sets b))"

text \<open>
  Modelled from the spec: the mask of step 5, true at every index below the original
  component count and false at every padding index.
\<close>

definition component_mask :: "nat \<Rightarrow> nat \<Rightarrow> bool list" where
  "component_mask original padded = map (\<lambda>i. i < original) [0..<padded]"

text \<open>
  Modelled from the spec: \<open>pad(batch, ceilings)\<close> of section 4.1, the transformation
  behind \<open>padding_ops.PadToTotalSizes\<close>. Ceilings are normalised first, then the
  preconditions and the room for the padding are checked, then every piece is padded
  and the mask is built.
\<close>

definition pad :: "graph_tensor \<Rightarrow> size_constraints \<Rightarrow> pad_error + graph_tensor \<times> bool list" where
  "pad b sc =
     (case toInt (total_num_components sc) of
        Inl e \<Rightarrow> Inl e
      | Inr tc \<Rightarrow>
     (case normalize_all (total_num_nodes sc) of
        Inl e \<Rightarrow> Inl e
      | Inr tn \<Rightarrow>
     (case normalize_all (total_num_edges sc) of
        Inl e \<Rightarrow> Inl e
      | Inr te \<Rightarrow>
          if \<not> schema_matches b tn te then Inl SchemaMismatch
          else if \<not> fits b tc tn te then Inl CapacityExceeded
          else
            let k = nat (tc - int (num_components b)) in
            if \<not> absorbs b k tn te then Inl CapacityExceeded
            else
            Inr (\<lparr>context_features = pad_features k (context_features b),
                  num_components = nat tc,
                  node_sets =
                    map (\<lambda>(name, ns).
                           (name, pad_node_set k (deficit tn name (sum_list (sizes ns))) ns))
                      (node_sets b),
                  edge_sets =
                    map (\<lambda>(name, es).
                           (name, pad_edge_set b k (deficit te name (sum_list (sizes es))) es))
                      (edge_sets b)\<rparr>,
                 component_mask (num_components b) (nat tc)))))"

subsection \<open>The graph and the ceilings of the test\<close>

text \<open>\<open>PadToTotalSizesTest._make_test_graph\<close> and the \<open>SizeConstraints\<close> of \<open>test\<close>.\<close>

definition make_test_graph :: graph_tensor where
  "make_test_graph =
     \<lparr>context_features =
        [(''label'', \<lparr>dtype = DT_INT, row_shape = [], rows = [Scalar (IntVal 42)]\<rparr>)],
      num_components = 1,
      node_sets =
        [(''nodes'',
          \<lparr>sizes = [1],
           features =
             [(''feature'',
               \<lparr>dtype = DT_FLOAT, row_shape = [2],
                rows = [Nested [Scalar (FloatVal 1), Scalar (FloatVal 2)]]\<rparr>)]\<rparr>)],
      edge_sets =
        [(''edges'',
          \<lparr>sizes = [1],
           features =
             [(''weight'',
               \<lparr>dtype = DT_FLOAT, row_shape = [], rows = [Scalar (FloatVal 1)]\<rparr>)],
           adjacency =
             \<lparr>source_name = ''nodes'', source = [0],
              target_name = ''nodes'', target = [0]\<rparr>\<rparr>)]\<rparr>"

definition test_sc :: size_constraints where
  "test_sc =
     \<lparr>total_num_components = PlainInt 2,
      total_num_nodes = [(''nodes'', PlainInt 3)],
      total_num_edges = [(''edges'', NumericContainer [4])]\<rparr>"

text \<open>Reading a padded batch the way the test does.\<close>

definition feature_rows :: "feature dict \<Rightarrow> string \<Rightarrow> tensor list option" where
  "feature_rows fs name = map_option rows (map_of fs name)"

definition node_set_sizes :: "graph_tensor \<Rightarrow> string \<Rightarrow> nat list option" where
  "node_set_sizes g name = map_option sizes (map_of (node_sets g) name)"

definition node_set_feature :: "graph_tensor \<Rightarrow> string \<Rightarrow> string \<Rightarrow> tensor list option" where
  "node_set_feature g name f =
     (case map_of (node_sets g) name of
        None \<Rightarrow> None
      | Some ns \<Rightarrow> feature_rows (features ns) f)"

definition edge_set_sizes :: "graph_tensor \<Rightarrow> string \<Rightarrow> nat list option" where
  "edge_set_sizes g name = map_option sizes (map_of (edge_sets g) name)"

definition edge_set_feature :: "graph_tensor \<Rightarrow> string \<Rightarrow> string \<Rightarrow> tensor list option" where
  "edge_set_feature g name f =
     (case map_of (edge_sets g) name of
        None \<Rightarrow> None
      | Some es \<Rightarrow> feature_rows (features es) f)"

section \<open>Properties of \<open>make_preprocess_model\<close>\<close>

lemma preprocess_step_value_error:
  "preprocess_step fn s = Inl e \<Longrightarrow> \<exists>m. e = ValueError m"
  by (auto simp: preprocess_step_def Let_def split: prod.splits pyobj.splits if_splits)

lemma preprocess_step_graph:
  "preprocess_step fn s = Inr (x', y') \<Longrightarrow> is_graph_tensor x'"
  by (cases s; cases "fn (fst s)") (auto simp: preprocess_step_def split: if_splits)

lemma preprocess_step_fails_iff:
  "(\<exists>e. preprocess_step fn (x, y) = Inl e) \<longleftrightarrow> rejected y (fn x)"
proof (cases "fn x")
  case (Tuple elems)
  show ?thesis
  proof (cases elems)
    case Nil
    with Tuple show ?thesis
      by (simp add: preprocess_step_def rejected_def is_pair_def is_graph_pair_def label_produced_def)
  next
    case (Cons a as)
    note c1 = Cons
    show ?thesis
    proof (cases as)
      case Nil
      with Tuple c1 show ?thesis
        by (simp add: preprocess_step_def rejected_def is_pair_def is_graph_pair_def label_produced_def)
    next
      case (Cons b bs)
      with Tuple c1 show ?thesis
        by (cases bs) (auto simp add: preprocess_step_def rejected_def is_pair_def is_graph_pair_def label_produced_def)
    qed
  qed
qed (simp_all add: preprocess_step_def rejected_def is_pair_def is_graph_pair_def label_produced_def)

text \<open>A turn that is not rejected moves on: a pair sets graph and label, a graph tensor the graph.\<close>

lemma preprocess_step_accepts:
  assumes "\<not> rejected y (fn x)"
  shows "preprocess_step fn (x, y) =
           Inr (case fn x of Tuple [g, l] \<Rightarrow> (g, l) | out \<Rightarrow> (out, y))"
proof (cases "fn x")
  case (Tuple elems)
  show ?thesis
  proof (cases elems)
    case Nil
    with Tuple assms show ?thesis
      by (simp add: rejected_def is_pair_def is_graph_pair_def)
  next
    case (Cons a as)
    note c1 = Cons
    show ?thesis
    proof (cases as)
      case Nil
      with Tuple c1 assms show ?thesis
        by (simp add: rejected_def is_pair_def is_graph_pair_def)
    next
      case (Cons b bs)
      with Tuple c1 assms show ?thesis
        by (cases bs)
           (auto simp: preprocess_step_def rejected_def is_pair_def is_graph_pair_def
              label_produced_def)
    qed
  qed
next
  case (GraphTensor g)
  then show ?thesis by (simp add: preprocess_step_def)
next
  case (Tensor t)
  with assms show ?thesis by (simp add: rejected_def is_pair_def is_graph_pair_def)
next
  case NoneObj
  with assms show ?thesis by (simp add: rejected_def is_pair_def is_graph_pair_def)
qed

lemma preprocess_loop_value_error:
  "preprocess_loop fns s = Inl e \<Longrightarrow> \<exists>m. e = ValueError m"
  by (induction fns arbitrary: s) (auto split: sum.splits dest: preprocess_step_value_error)

lemma preprocess_loop_graph:
  "is_graph_tensor (fst s) \<Longrightarrow> preprocess_loop fns s = Inr s' \<Longrightarrow> is_graph_tensor (fst s')"
proof (induction fns arbitrary: s)
  case Nil
  then show ?case by simp
next
  case (Cons fn fns)
  from Cons.prems(2) obtain s1 where s1: "preprocess_step fn s = Inr s1"
    and rest: "preprocess_loop fns s1 = Inr s'"
    by (auto split: sum.splits)
  have "is_graph_tensor (fst s1)"
    using s1 preprocess_step_graph [of fn s "fst s1" "snd s1"] by simp
  then show ?case using Cons.IH rest by blast
qed

lemma make_preprocess_model_unfold:
  "make_preprocess_model fw gs fns =
     (case preprocess_loop fns (parsed_input fw gs, NoneObj) of
        Inl e \<Rightarrow> Inl e
      | Inr (x, y) \<Rightarrow>
          Inr (Model (Input_examples fw) (if label_produced y then Tuple [x, y] else x)))"
  by (simp add: make_preprocess_model_def parsed_input_def label_produced_def Let_def
        split: sum.splits prod.splits)

text \<open>
  The loop in terms of the outputs alone: it fails exactly when some preprocessor's
  output is rejected, and otherwise ends in the graph and label handed on.
\<close>

lemma state_after_Cons:
  "state_after (fn # fns) s = state_after fns (accepted_state s (fn (fst s)))"
  by (simp add: state_after_def)

lemma rejected_at_0:
  "rejected_at (fn # fns) s 0 = rejected (snd s) (fn (fst s))"
  by (simp add: rejected_at_def state_after_def)

lemma rejected_at_Suc:
  "rejected_at (fn # fns) s (Suc i) = rejected_at fns (accepted_state s (fn (fst s))) i"
  by (simp add: rejected_at_def state_after_Cons)

lemma preprocess_step_accepted_state:
  assumes "\<not> rejected (snd s) (fn (fst s))"
  shows "preprocess_step fn s = Inr (accepted_state s (fn (fst s)))"
  using preprocess_step_accepts [of "snd s" fn "fst s"] assms
  by (simp add: accepted_state_def split: pyobj.splits list.splits)

lemma preprocess_loop_by_outputs:
  "(if \<exists>i<length fns. rejected_at fns s i
    then \<exists>e. preprocess_loop fns s = Inl e
    else preprocess_loop fns s = Inr (state_after fns s))"
proof (induction fns arbitrary: s)
  case Nil
  show ?case by (simp add: state_after_def)
next
  case (Cons fn fns)
  show ?case
  proof (cases "rejected (snd s) (fn (fst s))")
    case True
    then have "\<exists>e. preprocess_step fn s = Inl e"
      using preprocess_step_fails_iff [of fn "fst s" "snd s"] by simp
    then have "\<exists>e. preprocess_loop (fn # fns) s = Inl e" by auto
    moreover have "\<exists>i<length (fn # fns). rejected_at (fn # fns) s i"
      using True rejected_at_0 [of fn fns s] by auto
    ultimately show ?thesis by simp
  next
    case False
    let ?s1 = "accepted_state s (fn (fst s))"
    have step: "preprocess_step fn s = Inr ?s1"
      using False by (rule preprocess_step_accepted_state)
    have ex: "(\<exists>i<length (fn # fns). rejected_at (fn # fns) s i)
                \<longleftrightarrow> (\<exists>i<length fns. rejected_at fns ?s1 i)"
      using False by (simp add: Ex_less_Suc2 rejected_at_0 rejected_at_Suc)
    show ?thesis
      using Cons.IH [of ?s1] step ex by (simp add: state_after_Cons)
  qed
qed

text \<open>
  Claim C9. Every preprocessor is applied to the graph handed on by the ones before
  it. \<open>make_preprocess_model\<close> raises a \<open>ValueError\<close> if the output of some
  preprocessor is rejected: a 2-tuple when a label has already been produced (the
  label handed on is not \<open>None\<close>), or a value that is neither a graph tensor nor a
  2-tuple whose first element is a graph tensor. Otherwise it builds a model on the
  \<open>examples\<close> input whose output is the final graph alone when no label was
  produced, and the pair of the final graph and the label when one was; the final
  graph is the one the last preprocessor returned, and the label the second element
  of the returned 2-tuple.
\<close>

theorem make_preprocess_model_outcome:
  "(if \<exists>i<length fns. rejected_at fns (parsed_input fw gs, NoneObj) i
    then \<exists>m. make_preprocess_model fw gs fns = Inl (ValueError m)
    else (case state_after fns (parsed_input fw gs, NoneObj) of
            (x, y) \<Rightarrow>
              is_graph_tensor x
              \<and> make_preprocess_model fw gs fns =
                  Inr (Model (Input_examples fw)
                         (if label_produced y then Tuple [x, y] else x))))"
proof (cases "\<exists>i<length fns. rejected_at fns (parsed_input fw gs, NoneObj) i")
  case True
  then obtain e where e: "preprocess_loop fns (parsed_input fw gs, NoneObj) = Inl e"
    using preprocess_loop_by_outputs [of fns "(parsed_input fw gs, NoneObj)"] by auto
  then obtain m where "e = ValueError m" using preprocess_loop_value_error by blast
  with e have "make_preprocess_model fw gs fns = Inl (ValueError m)"
    by (simp add: make_preprocess_model_unfold)
  then show ?thesis using True by auto
next
  case False
  obtain x y where xy: "state_after fns (parsed_input fw gs, NoneObj) = (x, y)"
    by (cases "state_after fns (parsed_input fw gs, NoneObj)") auto
  have s: "preprocess_loop fns (parsed_input fw gs, NoneObj) = Inr (x, y)"
    using preprocess_loop_by_outputs [of fns "(parsed_input fw gs, NoneObj)"] False xy
    by simp
  have g: "is_graph_tensor x"
    using preprocess_loop_graph [of "(parsed_input fw gs, NoneObj)" fns "(x, y)"] s
    by (simp add: parsed_input_def)
  have "make_preprocess_model fw gs fns =
      Inr (Model (Input_examples fw) (if label_produced y then Tuple [x, y] else x))"
    using s by (simp add: make_preprocess_model_unfold)
  then show ?thesis using False xy g by simp
qed

text \<open>
  The theorem at five concrete sequences, with preprocessors that change the graph:
  a second label, an output that is no graph tensor after a change of graph, a
  label between two changes of graph, a label returned with a changed graph, and a
  plain change of graph.
\<close>

theorem make_preprocess_model_outcome_witness:
  "(\<exists>m. make_preprocess_model fw0 () [with_label 3, with_label 4] = Inl (ValueError m))
   \<and> (\<exists>m. make_preprocess_model fw0 () [next_graph, not_a_graph] = Inl (ValueError m))
   \<and> make_preprocess_model fw0 () [next_graph, with_label 3, next_graph] =
       Inr (Model (Tensor 0) (Tuple [GraphTensor 2, Tensor 3]))
   \<and> make_preprocess_model fw0 () [relabelled 6] =
       Inr (Model (Tensor 0) (Tuple [GraphTensor 1, Tensor 6]))
   \<and> make_preprocess_model fw0 () [next_graph] = Inr (Model (Tensor 0) (GraphTensor 1))"
proof -
  note defs = rejected_at_def state_after_def accepted_state_def rejected_def is_pair_def
    is_graph_pair_def label_produced_def parsed_input_def with_label_def next_graph_def
    relabelled_def not_a_graph_def fw0_def
  have c1: "\<exists>i<length [with_label 3, with_label 4].
      rejected_at [with_label 3, with_label 4] (parsed_input fw0 (), NoneObj) i"
    by (rule exI [of _ 1]) (simp add: defs)
  have 1: "\<exists>m. make_preprocess_model fw0 () [with_label 3, with_label 4] = Inl (ValueError m)"
    using make_preprocess_model_outcome [of "[with_label 3, with_label 4]" fw0 "()"] c1
    by (simp only: if_True)
  have c2: "\<exists>i<length [next_graph, not_a_graph].
      rejected_at [next_graph, not_a_graph] (parsed_input fw0 (), NoneObj) i"
    by (rule exI [of _ 1]) (simp add: defs)
  have 2: "\<exists>m. make_preprocess_model fw0 () [next_graph, not_a_graph] = Inl (ValueError m)"
    using make_preprocess_model_outcome [of "[next_graph, not_a_graph]" fw0 "()"] c2
    by (simp only: if_True)
  have c3: "\<not> (\<exists>i<length [next_graph, with_label 3, next_graph].
      rejected_at [next_graph, with_label 3, next_graph] (parsed_input fw0 (), NoneObj) i)"
    by (simp add: Ex_less_Suc2 defs)
  have s3: "state_after [next_graph, with_label 3, next_graph] (parsed_input fw0 (), NoneObj)
      = (GraphTensor 2, Tensor 3)"
    by (simp add: defs)
  have 3: "make_preprocess_model fw0 () [next_graph, with_label 3, next_graph] =
       Inr (Model (Tensor 0) (Tuple [GraphTensor 2, Tensor 3]))"
    using make_preprocess_model_outcome [of "[next_graph, with_label 3, next_graph]" fw0 "()"]
    by (simp only: c3 if_False s3) (simp add: label_produced_def fw0_def)
  have c4: "\<not> (\<exists>i<length [relabelled 6].
      rejected_at [relabelled 6] (parsed_input fw0 (), NoneObj) i)"
    by (simp add: Ex_less_Suc2 defs)
  have s4: "state_after [relabelled 6] (parsed_input fw0 (), NoneObj)
      = (GraphTensor 1, Tensor 6)"
    by (simp add: defs)
  have 4: "make_preprocess_model fw0 () [relabelled 6] =
       Inr (Model (Tensor 0) (Tuple [GraphTensor 1, Tensor 6]))"
    using make_preprocess_model_outcome [of "[relabelled 6]" fw0 "()"]
    by (simp only: c4 if_False s4) (simp add: label_produced_def fw0_def)
  have c5: "\<not> (\<exists>i<length [next_graph].
      rejected_at [next_graph] (parsed_input fw0 (), NoneObj) i)"
    by (simp add: Ex_less_Suc2 defs)
  have s5: "state_after [next_graph] (parsed_input fw0 (), NoneObj) = (GraphTensor 1, NoneObj)"
    by (simp add: defs)
  have 5: "make_preprocess_model fw0 () [next_graph] = Inr (Model (Tensor 0) (GraphTensor 1))"
    using make_preprocess_model_outcome [of "[next_graph]" fw0 "()"]
    by (simp only: c5 if_False s5) (simp add: label_produced_def fw0_def)
  from 1 2 3 4 5 show ?thesis by blast
qed

section \<open>Properties of \<open>run\<close>\<close>

lemma export_loop_append:
  "export_loop m dirs saved = saved @ map (Pair m) dirs"
  by (induction dirs arbitrary: saved) simp_all

lemma first_output_graph:
  "is_graph_tensor x \<Longrightarrow> first_output x = Inr x"
  by (cases x) (simp_all add: first_output_def)

lemma make_preprocess_model_outputs:
  assumes "make_preprocess_model fw gs fns = Inr pm"
  shows "\<exists>x. is_graph_tensor x \<and> first_output (outputs pm) = Inr x
           \<and> inputs pm = Input_examples fw"
proof -
  from assms obtain x y where
    s: "preprocess_loop fns (parsed_input fw gs, NoneObj) = Inr (x, y)"
    and pm: "pm = Model (Input_examples fw) (if label_produced y then Tuple [x, y] else x)"
    by (auto simp: make_preprocess_model_unfold split: sum.splits)
  have g: "is_graph_tensor x"
    using preprocess_loop_graph [of "(parsed_input fw gs, NoneObj)" fns "(x, y)"] s
    by (simp add: parsed_input_def)
  have "first_output (outputs pm) = Inr x"
    using pm g by (simp add: first_output_graph) (simp add: first_output_def)
  with g pm show ?thesis by auto
qed

lemma run_unfold:
  assumes "make_preprocess_model fw (gtspec a)
             (case feature_processors a of None \<Rightarrow> [] | Some fps \<Rightarrow> fps) = Inr pm"
    and "first_output (outputs pm) = Inr x"
  shows "run fw a =
     Inr (map (Pair (Model (inputs pm) (call_model fw (trained_model fw a pm) x)))
            (export_targets fw (export_dirs a) (model_dir (trainer a))))"
  using assms by (simp add: run_def call_on_own_inputs_def export_loop_append Let_def)

text \<open>
  The only exception \<open>run\<close> itself can end with is the one of
  \<open>make_preprocess_model\<close>: \<open>outputs[0]\<close> never meets an empty tuple.
\<close>

lemma run_raises_iff:
  "run fw a = Inl e \<longleftrightarrow>
     make_preprocess_model fw (gtspec a)
       (case feature_processors a of None \<Rightarrow> [] | Some fps \<Rightarrow> fps) = Inl e"
proof (cases "make_preprocess_model fw (gtspec a)
       (case feature_processors a of None \<Rightarrow> [] | Some fps \<Rightarrow> fps)")
  case (Inl e')
  then show ?thesis by (simp add: run_def)
next
  case (Inr pm)
  from make_preprocess_model_outputs [OF Inr] obtain x where
    "first_output (outputs pm) = Inr x" by blast
  from run_unfold [OF Inr this] Inr show ?thesis by simp
qed

text \<open>
  Claim C10. In a call of \<open>run\<close> that has built its preprocessing model, when
  \<open>export_dirs\<close> is \<open>None\<close> or empty the trained model, applied to the output of
  the preprocessing model, is saved exactly once, to
  \<open>os.path.join(trainer.model_dir, "export")\<close>; and when \<open>export_dirs\<close> is a
  non-empty sequence it is saved once to each listed directory, in order, and to
  nothing else, so \<open>trainer.model_dir\<close> plays no part in the export.
\<close>

theorem run_exports:
  assumes "make_preprocess_model fw (gtspec a)
             (case feature_processors a of None \<Rightarrow> [] | Some fps \<Rightarrow> fps) = Inr pm"
  shows "\<exists>x. first_output (outputs pm) = Inr x \<and> is_graph_tensor x \<and>
     (export_dirs a = None \<or> export_dirs a = Some [] \<longrightarrow>
        run fw a = Inr [(Model (inputs pm) (call_model fw (trained_model fw a pm) x),
                         os_path_join fw (model_dir (trainer a)) ''export'')])
     \<and> (\<forall>dirs. export_dirs a = Some dirs \<and> dirs \<noteq> [] \<longrightarrow>
          run fw a = Inr (map (Pair (Model (inputs pm) (call_model fw (trained_model fw a pm) x)))
                            dirs))"
proof -
  from make_preprocess_model_outputs [OF assms] obtain x where
    g: "is_graph_tensor x" and f: "first_output (outputs pm) = Inr x" by blast
  note r = run_unfold [OF assms f]
  have 1: "export_dirs a = None \<or> export_dirs a = Some [] \<longrightarrow>
        run fw a = Inr [(Model (inputs pm) (call_model fw (trained_model fw a pm) x),
                         os_path_join fw (model_dir (trainer a)) ''export'')]"
    using r by (auto simp: export_targets_def)
  have 2: "\<forall>dirs. export_dirs a = Some dirs \<and> dirs \<noteq> [] \<longrightarrow>
          run fw a = Inr (map (Pair (Model (inputs pm) (call_model fw (trained_model fw a pm) x)))
                            dirs)"
    using r by (auto simp: export_targets_def)
  from g f 1 2 show ?thesis by blast
qed

lemma preprocess_model_with_label:
  "make_preprocess_model fw0 () [with_label 3] =
     Inr (Model (Tensor 0) (Tuple [GraphTensor 0, Tensor 3]))"
  by (simp add: make_preprocess_model_def preprocess_step_def with_label_def fw0_def)

lemma trained_model_with_label:
  "trained_model fw0 (args0 dirs fps) (Model (Tensor 0) (Tuple [GraphTensor 0, Tensor 3])) = 8"
  by (simp add: trained_model_def args0_def adapted_model_fn_def first_output_def fw0_def)

text \<open>
  The theorem at three concrete calls: no export directories, an empty list of them,
  and two of them.
\<close>

theorem run_exports_witness:
  "run fw0 (args0 None (Some [with_label 3])) =
     Inr [(Model (Tensor 0) (Tensor 8), ''/tmp/m/export'')]
   \<and> run fw0 (args0 (Some []) (Some [with_label 3])) =
     Inr [(Model (Tensor 0) (Tensor 8), ''/tmp/m/export'')]
   \<and> run fw0 (args0 (Some [''a'', ''b'']) (Some [with_label 3])) =
     Inr [(Model (Tensor 0) (Tensor 8), ''a''), (Model (Tensor 0) (Tensor 8), ''b'')]"
proof -
  have h: "make_preprocess_model fw0 (gtspec (args0 dirs (Some [with_label 3])))
             (case feature_processors (args0 dirs (Some [with_label 3])) of
                None \<Rightarrow> [] | Some fps \<Rightarrow> fps)
           = Inr (Model (Tensor 0) (Tuple [GraphTensor 0, Tensor 3]))" for dirs
    using preprocess_model_with_label by (simp add: args0_def)
  have 1: "run fw0 (args0 None (Some [with_label 3])) =
     Inr [(Model (Tensor 0) (Tensor 8), ''/tmp/m/export'')]"
    using run_exports [OF h [of None]]
    by (simp add: first_output_def trained_model_with_label) (simp add: args0_def fw0_def)
  have 2: "run fw0 (args0 (Some []) (Some [with_label 3])) =
     Inr [(Model (Tensor 0) (Tensor 8), ''/tmp/m/export'')]"
    using run_exports [OF h [of "Some []"]]
    by (simp add: first_output_def trained_model_with_label) (simp add: args0_def fw0_def)
  have 3: "run fw0 (args0 (Some [''a'', ''b'']) (Some [with_label 3])) =
     Inr [(Model (Tensor 0) (Tensor 8), ''a''), (Model (Tensor 0) (Tensor 8), ''b'')]"
    using run_exports [OF h [of "Some [''a'', ''b'']"]]
    by (simp add: first_output_def trained_model_with_label) (simp add: args0_def fw0_def)
  from 1 2 3 show ?thesis by blast
qed

section \<open>Properties of the padder\<close>

text \<open>The whole result of the padder on the batch and ceilings of the test.\<close>

lemma pad_test_value:
  "pad make_test_graph test_sc =
     Inr (\<lparr>context_features =
            [(''label'', \<lparr>dtype = DT_INT, row_shape = [],
                          rows = [Scalar (IntVal 42), Scalar (IntVal 0)]\<rparr>)],
           num_components = 2,
           node_sets =
             [(''nodes'',
               \<lparr>sizes = [1, 2],
                features =
                  [(''feature'',
                    \<lparr>dtype = DT_FLOAT, row_shape = [2],
                     rows = [Nested [Scalar (FloatVal 1), Scalar (FloatVal 2)],
                             Nested [Scalar (FloatVal 0), Scalar (FloatVal 0)],
                             Nested [Scalar (FloatVal 0), Scalar (FloatVal 0)]]\<rparr>)]\<rparr>)],
           edge_sets =
             [(''edges'',
               \<lparr>sizes = [1, 3],
                features =
                  [(''weight'',
                    \<lparr>dtype = DT_FLOAT, row_shape = [],
                     rows = [Scalar (FloatVal 1), Scalar (FloatVal 0),
                             Scalar (FloatVal 0), Scalar (FloatVal 0)]\<rparr>)],
                adjacency =
                  \<lparr>source_name = ''nodes'', source = [0, 1, 1, 1],
                   target_name = ''nodes'', target = [0, 1, 1, 1]\<rparr>\<rparr>)]\<rparr>,
          [True, False])"
  by (simp add: pad_def make_test_graph_def test_sc_def schema_matches_def fits_def
     pad_features_def pad_feature_def pad_node_set_def pad_edge_set_def pad_adjacency_def
     first_padding_node_def deficit_def component_mask_def absorbs_def has_padding_node_def
     Let_def numeral_2_eq_2 numeral_3_eq_3 upt_rec)

text \<open>
  Claim C2. On the batch of the test (one component, context label \<open>[42]\<close>, node set
  \<open>nodes\<close> with sizes \<open>[1]\<close> and feature \<open>[[1., 2.]]\<close>, edge set \<open>edges\<close> with sizes
  \<open>[1]\<close>, feature \<open>[1.0]\<close> and a self-loop on node 0), padded with the ceilings
  2 components, 3 nodes and 4 edges (the last given as a numeric container), the
  padder returns the mask \<open>[True, False]\<close>, component count 2, context label
  \<open>[42, 0]\<close>, node sizes \<open>[1, 2]\<close>, node features \<open>[[1, 2], [0, 0], [0, 0]]\<close>, edge
  sizes \<open>[1, 3]\<close> and edge feature \<open>[1, 0, 0, 0]\<close>: what the assertions of the test
  expect.
\<close>

theorem pad_test_scenario:
  "(case pad make_test_graph test_sc of
      Inl e \<Rightarrow> False
    | Inr (g, cmask) \<Rightarrow>
        cmask = [True, False]
        \<and> num_components g = 2
        \<and> feature_rows (context_features g) ''label'' = Some [Scalar (IntVal 42), Scalar (IntVal 0)]
        \<and> node_set_sizes g ''nodes'' = Some [1, 2]
        \<and> node_set_feature g ''nodes'' ''feature'' =
            Some [Nested [Scalar (FloatVal 1), Scalar (FloatVal 2)],
                  Nested [Scalar (FloatVal 0), Scalar (FloatVal 0)],
                  Nested [Scalar (FloatVal 0), Scalar (FloatVal 0)]]
        \<and> edge_set_sizes g ''edges'' = Some [1, 3]
        \<and> edge_set_feature g ''edges'' ''weight'' =
            Some [Scalar (FloatVal 1), Scalar (FloatVal 0), Scalar (FloatVal 0), Scalar (FloatVal 0)])"
  by (simp add: pad_test_value feature_rows_def node_set_sizes_def node_set_feature_def
        edge_set_sizes_def edge_set_feature_def)





lemma map_of_map_keyed:
  "map_of (map (\<lambda>(name, v). (name, f name v)) xs) k = map_option (f k) (map_of xs k)"
  by (induction xs) auto

lemma sum_list_padding_sizes:
  "sum_list (padding_sizes k d) = (if k = 0 then 0 else d)"
  by (cases k) simp_all

text \<open>What a call that \<open>pad\<close> accepts has passed, and what it returns for the sets.\<close>

lemma pad_accepts:
  assumes "pad b sc = Inr (g, cmask)"
  shows "\<exists>tc tn te.
           toInt (total_num_components sc) = Inr tc
           \<and> normalize_all (total_num_nodes sc) = Inr tn
           \<and> normalize_all (total_num_edges sc) = Inr te
           \<and> schema_matches b tn te \<and> fits b tc tn te
           \<and> absorbs b (nat (tc - int (num_components b))) tn te
           \<and> node_sets g =
               map (\<lambda>(name, ns).
                      (name, pad_node_set (nat (tc - int (num_components b)))
                               (deficit tn name (sum_list (sizes ns))) ns))
                 (node_sets b)
           \<and> edge_sets g =
               map (\<lambda>(name, es).
                      (name, pad_edge_set b (nat (tc - int (num_components b)))
                               (deficit te name (sum_list (sizes es))) es))
                 (edge_sets b)"
proof -
  from assms obtain tc where tc: "toInt (total_num_components sc) = Inr tc"
    by (cases "toInt (total_num_components sc)") (simp_all add: pad_def)
  from assms tc obtain tn where tn: "normalize_all (total_num_nodes sc) = Inr tn"
    by (cases "normalize_all (total_num_nodes sc)") (simp_all add: pad_def)
  from assms tc tn obtain te where te: "normalize_all (total_num_edges sc) = Inr te"
    by (cases "normalize_all (total_num_edges sc)") (simp_all add: pad_def)
  have sm: "schema_matches b tn te"
    using assms tc tn te by (cases "schema_matches b tn te") (simp_all add: pad_def)
  have ft: "fits b tc tn te"
    using assms tc tn te sm by (cases "fits b tc tn te") (simp_all add: pad_def)
  have ab: "absorbs b (nat (tc - int (num_components b))) tn te"
    using assms tc tn te sm ft
    by (cases "absorbs b (nat (tc - int (num_components b))) tn te")
       (simp_all add: pad_def Let_def)
  have "g = \<lparr>context_features =
               pad_features (nat (tc - int (num_components b))) (context_features b),
             num_components = nat tc,
             node_sets =
               map (\<lambda>(name, ns).
                      (name, pad_node_set (nat (tc - int (num_components b)))
                               (deficit tn name (sum_list (sizes ns))) ns))
                 (node_sets b),
             edge_sets =
               map (\<lambda>(name, es).
                      (name, pad_edge_set b (nat (tc - int (num_components b)))
                               (deficit te name (sum_list (sizes es))) es))
                 (edge_sets b)\<rparr>"
    using assms tc tn te sm ft ab by (simp add: pad_def Let_def)
  then have "node_sets g =
               map (\<lambda>(name, ns).
                      (name, pad_node_set (nat (tc - int (num_components b)))
                               (deficit tn name (sum_list (sizes ns))) ns))
                 (node_sets b)"
    and "edge_sets g =
               map (\<lambda>(name, es).
                      (name, pad_edge_set b (nat (tc - int (num_components b)))
                               (deficit te name (sum_list (sizes es))) es))
                 (edge_sets b)"
    by simp_all
  with tc tn te sm ft ab show ?thesis by blast
qed

text \<open>
  The padding has room on every accepted input: the sizes of a padded node set sum
  to its ceiling.
\<close>

lemma padded_node_sizes_sum:
  assumes "pad b sc = Inr (g, cmask)"
    and "normalize_all (total_num_nodes sc) = Inr tn"
    and "map_of (node_sets b) name = Some ns"
  shows "\<exists>c ns'. map_of tn name = Some c \<and> map_of (node_sets g) name = Some ns'
           \<and> int (sum_list (sizes ns')) = c"
proof -
  from pad_accepts [OF assms(1)] assms(2) obtain tc te where
    sm: "schema_matches b tn te" and ft: "fits b tc tn te"
    and ab: "absorbs b (nat (tc - int (num_components b))) tn te"
    and ns: "node_sets g =
               map (\<lambda>(name, ns).
                      (name, pad_node_set (nat (tc - int (num_components b)))
                               (deficit tn name (sum_list (sizes ns))) ns))
                 (node_sets b)"
    by auto
  let ?k = "nat (tc - int (num_components b))"
  have mem: "(name, ns) \<in> set (node_sets b)" using assms(3) by (rule map_of_SomeD)
  then have "fst (name, ns) \<in> fst ` set (node_sets b)" by (rule imageI)
  then have "name \<in> set (map fst (node_sets b))" by simp
  moreover have "set (map fst tn) = set (map fst (node_sets b))"
    using sm by (simp add: schema_matches_def)
  ultimately have "name \<in> fst ` set tn" by simp
  then have "map_of tn name \<noteq> None" by (simp add: map_of_eq_None_iff)
  then obtain c where c: "map_of tn name = Some c" by blast
  have "list_all (\<lambda>(name, ns). case map_of tn name of
                       None \<Rightarrow> True
                     | Some c \<Rightarrow> int (sum_list (sizes ns)) \<le> c) (node_sets b)"
    using ft by (simp add: fits_def)
  then have "case (name, ns) of (name, ns) \<Rightarrow>
                (case map_of tn name of
                   None \<Rightarrow> True
                 | Some c \<Rightarrow> int (sum_list (sizes ns)) \<le> c)"
    using mem unfolding list_all_iff by (rule bspec)
  then have le: "int (sum_list (sizes ns)) \<le> c"
    using c by simp
  have "list_all (\<lambda>(name, ns). deficit tn name (sum_list (sizes ns)) = 0 \<or> 0 < ?k)
          (node_sets b)"
    using ab by (simp add: absorbs_def)
  then have "case (name, ns) of (name, ns) \<Rightarrow>
                deficit tn name (sum_list (sizes ns)) = 0 \<or> 0 < ?k"
    using mem unfolding list_all_iff by (rule bspec)
  then have room: "deficit tn name (sum_list (sizes ns)) = 0 \<or> 0 < ?k"
    by simp
  let ?ns' = "pad_node_set ?k (deficit tn name (sum_list (sizes ns))) ns"
  have 1: "map_of (node_sets g) name = Some ?ns'"
    using assms(3) by (simp add: ns map_of_map_keyed)
  have d: "deficit tn name (sum_list (sizes ns)) = nat (c - int (sum_list (sizes ns)))"
    using c by (simp add: deficit_def)
  have "sum_list (sizes ?ns') =
          sum_list (sizes ns) + (if ?k = 0 then 0 else deficit tn name (sum_list (sizes ns)))"
    by (simp add: pad_node_set_def sum_list_padding_sizes)
  then have 2: "int (sum_list (sizes ?ns')) = c"
    using le room d by (cases "?k = 0") simp_all
  from c 1 2 show ?thesis by blast
qed

text \<open>
  The padded adjacency keeps the original entries in place and appends synthetic
  ones, and every synthetic entry is an index into the padded node array of the
  node set it refers to.
\<close>

lemma synthetic_edges_in_range:
  assumes "pad b sc = Inr (g, cmask)"
    and "map_of (edge_sets b) name = Some es"
    and "map_of (edge_sets g) name = Some es'"
  shows "\<exists>d. source (adjacency es') =
               source (adjacency es) @ replicate d (first_padding_node b (source_name (adjacency es)))
           \<and> target (adjacency es') =
               target (adjacency es) @ replicate d (first_padding_node b (target_name (adjacency es)))
           \<and> (0 < d \<longrightarrow>
                (\<exists>ns'. map_of (node_sets g) (source_name (adjacency es)) = Some ns'
                   \<and> first_padding_node b (source_name (adjacency es)) < sum_list (sizes ns'))
              \<and> (\<exists>ns'. map_of (node_sets g) (target_name (adjacency es)) = Some ns'
                   \<and> first_padding_node b (target_name (adjacency es)) < sum_list (sizes ns')))"
proof -
  from pad_accepts [OF assms(1)] obtain tc tn te where
    tn: "normalize_all (total_num_nodes sc) = Inr tn"
    and ab: "absorbs b (nat (tc - int (num_components b))) tn te"
    and es: "edge_sets g =
               map (\<lambda>(name, es).
                      (name, pad_edge_set b (nat (tc - int (num_components b)))
                               (deficit te name (sum_list (sizes es))) es))
                 (edge_sets b)"
    by auto
  let ?k = "nat (tc - int (num_components b))"
  let ?d = "deficit te name (sum_list (sizes es))"
  have es': "es' = pad_edge_set b ?k ?d es"
    using assms(2,3) by (simp add: es map_of_map_keyed)
  have mem: "(name, es) \<in> set (edge_sets b)" using assms(2) by (rule map_of_SomeD)
  have in_range: "\<exists>ns'. map_of (node_sets g) nm = Some ns'
           \<and> first_padding_node b nm < sum_list (sizes ns')"
    if h: "has_padding_node b tn nm" for nm
  proof -
    from h obtain ns where ns: "map_of (node_sets b) nm = Some ns"
      and pos: "0 < deficit tn nm (sum_list (sizes ns))"
      by (auto simp: has_padding_node_def split: option.splits)
    from padded_node_sizes_sum [OF assms(1) tn ns] obtain c ns' where
      c: "map_of tn nm = Some c" and g: "map_of (node_sets g) nm = Some ns'"
      and sum: "int (sum_list (sizes ns')) = c" by blast
    have "first_padding_node b nm = sum_list (sizes ns)"
      using ns by (simp add: first_padding_node_def)
    moreover have "0 < nat (c - int (sum_list (sizes ns)))"
      using pos c by (simp add: deficit_def)
    ultimately have "first_padding_node b nm < sum_list (sizes ns')"
      using sum by linarith
    with g show ?thesis by blast
  qed
  have "list_all (\<lambda>(name, es).
                    deficit te name (sum_list (sizes es)) = 0
                    \<or> (0 < ?k
                        \<and> has_padding_node b tn (source_name (adjacency es))
                        \<and> has_padding_node b tn (target_name (adjacency es))))
          (edge_sets b)"
    using ab by (simp add: absorbs_def)
  then have "case (name, es) of (name, es) \<Rightarrow>
                    deficit te name (sum_list (sizes es)) = 0
                    \<or> (0 < ?k
                        \<and> has_padding_node b tn (source_name (adjacency es))
                        \<and> has_padding_node b tn (target_name (adjacency es)))"
    using mem unfolding list_all_iff by (rule bspec)
  then have room: "0 < ?d \<longrightarrow> has_padding_node b tn (source_name (adjacency es))
                 \<and> has_padding_node b tn (target_name (adjacency es))"
    by auto
  have src: "source (adjacency es') =
          source (adjacency es) @ replicate ?d (first_padding_node b (source_name (adjacency es)))"
    and tgt: "target (adjacency es') =
          target (adjacency es) @ replicate ?d (first_padding_node b (target_name (adjacency es)))"
    by (simp_all add: es' pad_edge_set_def pad_adjacency_def)
  have rng: "0 < ?d \<longrightarrow>
      (\<exists>ns'. map_of (node_sets g) (source_name (adjacency es)) = Some ns'
         \<and> first_padding_node b (source_name (adjacency es)) < sum_list (sizes ns'))
      \<and> (\<exists>ns'. map_of (node_sets g) (target_name (adjacency es)) = Some ns'
         \<and> first_padding_node b (target_name (adjacency es)) < sum_list (sizes ns'))"
  proof
    assume "0 < ?d"
    with room have hs: "has_padding_node b tn (source_name (adjacency es))"
      and ht: "has_padding_node b tn (target_name (adjacency es))" by simp_all
    from in_range [OF hs] in_range [OF ht]
    show "(\<exists>ns'. map_of (node_sets g) (source_name (adjacency es)) = Some ns'
         \<and> first_padding_node b (source_name (adjacency es)) < sum_list (sizes ns'))
      \<and> (\<exists>ns'. map_of (node_sets g) (target_name (adjacency es)) = Some ns'
         \<and> first_padding_node b (target_name (adjacency es)) < sum_list (sizes ns'))"
      by (rule conjI)
  qed
  show ?thesis
    by (rule exI [of _ ?d]) (intro conjI src tgt rng)
qed

end
